theory Spec2Isabelle
  imports Main
begin

section \<open>The bronze layer of the gym-data lakehouse (scripts/04.bronze\_layer.py)\<close>

text \<open>
  The class \<open>Bronze\<close> builds three Structured Streaming ingestion queries
  (\<open>consume_user_registrations\<close>, \<open>consume_gym_logins\<close>, \<open>consume_kafka_multiplex\<close>),
  starts them from \<open>consume\<close>, and checks committed row counts with \<open>assert_count\<close> and
  \<open>validate\<close>. Spark itself is outside the file: the model records what the code asks of
  the Spark API (the options, paths, triggers and tables of each query) and takes what
  Spark answers (the committed rows, the meaning of a \<open>where\<close> text, the clock) as input.
\<close>

subsection \<open>Python values, exceptions and output\<close>

datatype pyval = PBool bool | PInt int | PStr string

datatype error =
    AttributeError string
  | TypeError string
  | AssertionError string
  | AnalysisException string
  | ImportError string

text \<open>\<open>x == True\<close> and the truth value of \<open>x\<close> in an \<open>if\<close>, for the values above.\<close>

fun eq_True :: "pyval \<Rightarrow> bool" where
  "eq_True (PBool b) = b"
| "eq_True (PInt i) = (i = 1)"
| "eq_True (PStr s) = False"

fun truthy :: "pyval \<Rightarrow> bool" where
  "truthy (PBool b) = b"
| "truthy (PInt i) = (i \<noteq> 0)"
| "truthy (PStr s) = (s \<noteq> [])"

text \<open>
  Standard output is the list of texts written so far, one entry for each call of
  \<open>print\<close>, each with the terminator the call wrote (a newline, or nothing for
  \<open>end=''\<close>).
\<close>

definition newline :: string where
  "newline = [CHR 0x0A]"

definition print_end :: "string \<Rightarrow> string \<Rightarrow> string list \<Rightarrow> string list" where
  "print_end s e out = out @ [s @ e]"

definition print_line :: "string \<Rightarrow> string list \<Rightarrow> string list" where
  "print_line s out = print_end s newline out"

subsection \<open>Formatting integers in f-strings\<close>

text \<open>
  \<open>{n}\<close> writes an integer in decimal; \<open>{n:,}\<close> writes it with a comma between
  groups of three digits.
\<close>

definition digit :: "nat \<Rightarrow> char" where
  "digit d = ''0123456789'' ! d"

fun dec :: "nat \<Rightarrow> string" where
  "dec n = (if n < 10 then [digit n] else dec (n div 10) @ [digit (n mod 10)])"

declare dec.simps [simp del]

definition dec3 :: "nat \<Rightarrow> string" where
  "dec3 n = [digit (n div 100 mod 10), digit (n div 10 mod 10), digit (n mod 10)]"

fun grouped :: "nat \<Rightarrow> string" where
  "grouped n = (if n < 1000 then dec n else grouped (n div 1000) @ '','' @ dec3 (n mod 1000))"

declare grouped.simps [simp del]

definition str :: "int \<Rightarrow> string" where
  "str i = (if i < 0 then ''-'' @ dec (nat (- i)) else dec (nat i))"

definition fmt_comma :: "int \<Rightarrow> string" where
  "fmt_comma i = (if i < 0 then ''-'' @ grouped (nat (- i)) else grouped (nat i))"

subsection \<open>Configuration and the Bronze object\<close>

text \<open>
  \<open>Config\<close> comes from the notebook \<open>01.config\<close>, which is not part of the file; the three
  attributes that \<open>Bronze\<close> reads from it are the fields of the record.
\<close>

record config =
  base_dir_data :: string
  base_dir_checkpoint :: string
  db_name :: string

record bronze =
  Conf :: config
  catalog :: string
  landing_zone :: string
  checkpoint_base :: string
  db_name :: string

definition Bronze :: "config \<Rightarrow> string \<Rightarrow> bronze" where
  "Bronze conf env =
     \<lparr> Conf = conf,
       catalog = env,
       landing_zone = base_dir_data conf @ ''/raw'',
       checkpoint_base = base_dir_checkpoint conf @ ''/checkpoint'',
       db_name = config.db_name conf \<rparr>"

text \<open>The name \<open>{self.catalog}.{self.db_name}.{table}\<close> used for every table.\<close>

definition table_path :: "bronze \<Rightarrow> string \<Rightarrow> string" where
  "table_path b t = catalog b @ ''.'' @ bronze.db_name b @ ''.'' @ t"

subsection \<open>The committed tables and the validator\<close>

text \<open>
  What \<open>spark.read.table(name).where(filter).count()\<close> sees: the rows committed to each
  table (no entry when the table does not exist, where Spark raises an
  \<open>AnalysisException\<close>), and Spark's reading of a predicate text on a row.
\<close>

record 'r lakehouse =
  tables :: "string \<rightharpoonup> 'r list"
  sql_where :: "string \<Rightarrow> 'r \<Rightarrow> bool"

definition read_count :: "'r lakehouse \<Rightarrow> string \<Rightarrow> string \<Rightarrow> error + nat" where
  "read_count lh name filter' =
     (case tables lh name of
        None \<Rightarrow> Inl (AnalysisException name)
      | Some rows \<Rightarrow> Inr (length (filter (sql_where lh filter') rows)))"

definition mismatch_message :: "int \<Rightarrow> int \<Rightarrow> string \<Rightarrow> string \<Rightarrow> string" where
  "mismatch_message expected_count actual_count table_name filter' =
     ''Expected '' @ fmt_comma expected_count @ '' records, found '' @ fmt_comma actual_count
       @ '' in '' @ table_name @ '' where '' @ filter'"

definition success_message :: "int \<Rightarrow> int \<Rightarrow> string \<Rightarrow> string" where
  "success_message expected_count actual_count filter' =
     ''Found '' @ fmt_comma actual_count @ '' / Expected '' @ fmt_comma expected_count
       @ '' records where '' @ filter' @ '': Success''"

definition assert_count ::
  "bronze \<Rightarrow> 'r lakehouse \<Rightarrow> string \<Rightarrow> int \<Rightarrow> string \<Rightarrow> string list \<Rightarrow> (error + unit) \<times> string list"
where
  "assert_count b lh table_name expected_count filter' out =
     (let out1 = print_end (''Validating record counts in '' @ table_name @ ''...'') [] out in
      case read_count lh (table_path b table_name) filter' of
        Inl e \<Rightarrow> (Inl e, out1)
      | Inr actual_count \<Rightarrow>
          if int actual_count = expected_count
          then (Inr (), print_line (success_message expected_count (int actual_count) filter') out1)
          else (Inl (AssertionError
                  (mismatch_message expected_count (int actual_count) table_name filter')), out1))"

text \<open>Statement after statement: the next one runs only when the one before returned.\<close>

definition and_then ::
  "(error + unit) \<times> string list \<Rightarrow> (string list \<Rightarrow> (error + unit) \<times> string list)
     \<Rightarrow> (error + unit) \<times> string list"
where
  "and_then r k = (case r of (Inl e, out) \<Rightarrow> (Inl e, out) | (Inr u, out) \<Rightarrow> k out)"

definition topic_is :: "string \<Rightarrow> string" where
  "topic_is t = ''topic='' @ [CHR 0x27] @ t @ [CHR 0x27]"

text \<open>
  \<open>validate\<close>; \<open>start\<close> and \<open>finish\<close> are the two readings \<open>int(time.time())\<close> of the
  clock, at entry and in the last line.
\<close>

definition validate ::
  "bronze \<Rightarrow> 'r lakehouse \<Rightarrow> int \<Rightarrow> int \<Rightarrow> int \<Rightarrow> string list \<Rightarrow> (error + unit) \<times> string list"
where
  "validate b lh start finish sets out =
     and_then (Inr (), print_line (newline @ ''Validating bronz layer records...'') out) (\<lambda>out.
     and_then (assert_count b lh ''registered_users_bz'' (if sets = 1 then 5 else 10) ''true'' out) (\<lambda>out.
     and_then (assert_count b lh ''gym_logins_bz'' (if sets = 1 then 8 else 16) ''true'' out) (\<lambda>out.
     and_then (assert_count b lh ''kafka_multiplex_bz'' (if sets = 1 then 7 else 13) (topic_is ''user_info'') out) (\<lambda>out.
     and_then (assert_count b lh ''kafka_multiplex_bz'' (if sets = 1 then 16 else 32) (topic_is ''workout'') out) (\<lambda>out.
     and_then (assert_count b lh ''kafka_multiplex_bz'' (sets * 253801) (topic_is ''bpm'') out) (\<lambda>out.
       (Inr (), print_line (''Bronze layer validation completed in '' @ str (finish - start)
                              @ '' seconds'') out)))))))"

subsection \<open>The Spark streaming API as the code calls it\<close>

text \<open>
  A reader, a data frame and a writer are the plans that the chained calls build; nothing
  runs before \<open>toTable\<close>. \<open>option\<close> takes a key and a value, as every call but one in
  the file gives it; Python raises a \<open>TypeError\<close> on any other number of arguments. The
  global \<open>spark\<close> is taken as the runtime provides it.
\<close>

definition call_option ::
  "pyval list \<Rightarrow> (string \<times> pyval) list \<Rightarrow> error + (string \<times> pyval) list"
where
  "call_option args opts =
     (case args of
        [PStr k, v] \<Rightarrow> Inr (opts @ [(k, v)])
      | _ \<Rightarrow> Inl (TypeError ''option() takes a key and a value''))"

record stream_reader =
  rd_format :: "string option"
  rd_schema :: "string option"
  rd_options :: "(string \<times> pyval) list"

definition readStream :: stream_reader where
  "readStream = \<lparr> rd_format = None, rd_schema = None, rd_options = [] \<rparr>"

definition reader_format :: "string \<Rightarrow> stream_reader \<Rightarrow> stream_reader" where
  "reader_format f r = r\<lparr> rd_format := Some f \<rparr>"

definition reader_schema :: "string \<Rightarrow> stream_reader \<Rightarrow> stream_reader" where
  "reader_schema ddl r = r\<lparr> rd_schema := Some ddl \<rparr>"

definition reader_option :: "pyval list \<Rightarrow> stream_reader \<Rightarrow> error + stream_reader" where
  "reader_option args r =
     (case call_option args (rd_options r) of
        Inl e \<Rightarrow> Inl e
      | Inr opts \<Rightarrow> Inr (r\<lparr> rd_options := opts \<rparr>))"

text \<open>The column names of a schema text such as \<open>"gym bigint, login double"\<close>.\<close>

fun split_on :: "char \<Rightarrow> string \<Rightarrow> string list" where
  "split_on c [] = [[]]"
| "split_on c (x # xs) =
     (if x = c then [] # split_on c xs
      else (case split_on c xs of [] \<Rightarrow> [[x]] | w # ws \<Rightarrow> (x # w) # ws))"

definition schema_columns :: "string \<Rightarrow> string list" where
  "schema_columns ddl =
     map (\<lambda>field. takeWhile (\<lambda>c. c \<noteq> CHR '' '') (dropWhile (\<lambda>c. c = CHR '' '') field))
       (split_on CHR '','' ddl)"

record data_frame =
  df_reader :: stream_reader
  df_path :: string
  df_columns :: "string list"
  df_derived :: "(string \<times> string) list"
  df_joined :: "(string \<times> string) option"

text \<open>
  \<open>load\<close>: with a schema the frame has the schema's columns; without one Spark infers them
  when the query runs, and the plan has none of its own.
\<close>

definition load :: "string \<Rightarrow> stream_reader \<Rightarrow> data_frame" where
  "load p r =
     \<lparr> df_reader = r, df_path = p,
       df_columns = (case rd_schema r of None \<Rightarrow> [] | Some ddl \<Rightarrow> schema_columns ddl),
       df_derived = [], df_joined = None \<rparr>"

text \<open>\<open>withColumn(name, expr)\<close> replaces a column of that name or adds a new last column.\<close>

definition withColumn :: "string \<Rightarrow> string \<Rightarrow> data_frame \<Rightarrow> data_frame" where
  "withColumn name expr df =
     df\<lparr> df_columns := (if name \<in> set (df_columns df) then df_columns df
                         else df_columns df @ [name]),
         df_derived := df_derived df @ [(name, expr)] \<rparr>"

text \<open>
  \<open>join(other, on, how)\<close> with the columns of \<open>other\<close>: the frame keeps its columns and
  gains those of the other side; the plan remembers the table joined and the join type.
\<close>

definition join :: "string \<Rightarrow> string list \<Rightarrow> string \<Rightarrow> data_frame \<Rightarrow> data_frame" where
  "join other other_columns how df =
     df\<lparr> df_columns := df_columns df @ other_columns, df_joined := Some (other, how) \<rparr>"

datatype trigger = AvailableNow | ProcessingTime pyval

record stream_writer =
  wr_frame :: data_frame
  wr_format :: "string option"
  wr_options :: "(string \<times> pyval) list"
  wr_outputMode :: "string option"
  wr_queryName :: "string option"
  wr_trigger :: "trigger option"

definition writeStream :: "data_frame \<Rightarrow> stream_writer" where
  "writeStream df =
     \<lparr> wr_frame = df, wr_format = None, wr_options = [], wr_outputMode = None,
       wr_queryName = None, wr_trigger = None \<rparr>"

definition writer_format :: "string \<Rightarrow> stream_writer \<Rightarrow> stream_writer" where
  "writer_format f w = w\<lparr> wr_format := Some f \<rparr>"

definition writer_option :: "pyval list \<Rightarrow> stream_writer \<Rightarrow> error + stream_writer" where
  "writer_option args w =
     (case call_option args (wr_options w) of
        Inl e \<Rightarrow> Inl e
      | Inr opts \<Rightarrow> Inr (w\<lparr> wr_options := opts \<rparr>))"

definition outputMode :: "string \<Rightarrow> stream_writer \<Rightarrow> stream_writer" where
  "outputMode m w = w\<lparr> wr_outputMode := Some m \<rparr>"

definition queryName :: "string \<Rightarrow> stream_writer \<Rightarrow> stream_writer" where
  "queryName n w = w\<lparr> wr_queryName := Some n \<rparr>"

definition with_trigger :: "trigger \<Rightarrow> stream_writer \<Rightarrow> stream_writer" where
  "with_trigger t w = w\<lparr> wr_trigger := Some t \<rparr>"


text \<open>
  The session: the scheduler pool set by \<open>setLocalProperty\<close>, the queries that are
  active (\<open>spark.streams.active\<close>), and the rows of the tables that
  \<open>spark.read.table\<close> can see, projected on \<open>date\<close> and \<open>week_part\<close> (only
  \<open>date_lookup\<close> is read in this way). A date is a day number.
\<close>

record date_lookup_row =
  date :: "int option"
  week_part :: "string option"

record streaming_query =
  q_writer :: stream_writer
  q_table :: string
  q_pool :: "string option"

record spark_session =
  scheduler_pool :: "string option"
  active :: "streaming_query list"
  static_tables :: "string \<rightharpoonup> date_lookup_row list"

definition setLocalProperty :: "string \<Rightarrow> spark_session \<Rightarrow> spark_session" where
  "setLocalProperty p s = s\<lparr> scheduler_pool := Some p \<rparr>"

definition toTable ::
  "string \<Rightarrow> stream_writer \<Rightarrow> spark_session \<Rightarrow> (error + streaming_query) \<times> spark_session"
where
  "toTable name w s =
     (let q = \<lparr> q_writer = w, q_table = name, q_pool = scheduler_pool s \<rparr>
      in (Inr q, s\<lparr> active := active s @ [q] \<rparr>))"

definition bind_result :: "error + 'a \<Rightarrow> ('a \<Rightarrow> error + 'b) \<Rightarrow> error + 'b" where
  "bind_result m k = (case m of Inl e \<Rightarrow> Inl e | Inr x \<Rightarrow> k x)"

text \<open>
  \<open>from pyspark.sql.functions import F\<close>, the first statement of each of the three
  methods. The module defines its functions under their own names (\<open>col\<close>,
  \<open>current_timestamp\<close>, ...) and none named \<open>F\<close>, which is the customary alias of the
  module itself (\<open>from pyspark.sql import functions as F\<close>); importing a name that a
  module does not define raises an \<open>ImportError\<close>. The list holds the names of the module
  that the three methods go on to use.
\<close>

definition pyspark_sql_functions :: "string list" where
  "pyspark_sql_functions =
     [''broadcast'', ''col'', ''current_timestamp'', ''input_file_name'', ''to_date'']"

definition import_from :: "string list \<Rightarrow> string \<Rightarrow> error + unit" where
  "import_from names name = (if name \<in> set names then Inr () else Inl (ImportError name))"

subsection \<open>The three ingestion queries\<close>

text \<open>
  Each method imports \<open>F\<close>, builds \<open>df_stream\<close>, then \<open>stream_writer\<close>, sets the
  scheduler pool and starts the query with the trigger that \<open>once\<close> selects. The three
  stages after the import are separate definitions, in the order in which the method runs
  them.
\<close>

definition user_registrations_schema :: string where
  "user_registrations_schema =
     ''user_id long, device_id long, mac_address string, registration_timestamp double''"

definition user_registrations_df :: "bronze \<Rightarrow> error + data_frame" where
  "user_registrations_df b =
     bind_result (Inr (reader_format ''cloudFiles'' readStream)) (\<lambda>r.
     bind_result (reader_option [PStr user_registrations_schema] r) (\<lambda>r.
     bind_result (reader_option [PStr ''maxFileTrigger'', PInt 1] r) (\<lambda>r.
     bind_result (reader_option [PStr ''cloudFiles.format'', PStr ''csv''] r) (\<lambda>r.
     bind_result (reader_option [PStr ''header'', PStr ''True''] r) (\<lambda>r.
       Inr (withColumn ''source_file'' ''input_file_name''
             (withColumn ''load_time'' ''current_timestamp''
               (load (landing_zone b @ ''/registered_users_bz'') r))))))))"

definition user_registrations_writer :: "bronze \<Rightarrow> data_frame \<Rightarrow> error + stream_writer" where
  "user_registrations_writer b df_stream =
     bind_result (Inr (writer_format ''delta'' (writeStream df_stream))) (\<lambda>w.
     bind_result (writer_option [PStr ''checkpointLocation'',
                                 PStr (checkpoint_base b @ ''/registered_users_bz'')] w) (\<lambda>w.
       Inr (queryName ''registered_users_bz_ingestion_stream'' (outputMode ''append'' w))))"

definition start_user_registrations ::
  "bronze \<Rightarrow> pyval \<Rightarrow> pyval \<Rightarrow> stream_writer \<Rightarrow> spark_session
     \<Rightarrow> (error + streaming_query) \<times> spark_session"
where
  "start_user_registrations b once processing_time stream_writer s =
     (let s = setLocalProperty ''bronze_p2'' s in
      if eq_True once
      then toTable (table_path b ''registered_users_bz'') (with_trigger AvailableNow stream_writer) s
      else toTable (table_path b ''registered_users_bz'')
             (with_trigger (ProcessingTime processing_time) stream_writer) s)"

definition consume_user_registrations ::
  "bronze \<Rightarrow> pyval \<Rightarrow> pyval \<Rightarrow> spark_session \<Rightarrow> (error + streaming_query) \<times> spark_session"
where
  "consume_user_registrations b once processing_time s =
     (case bind_result (import_from pyspark_sql_functions ''F'') (\<lambda>F.
             bind_result (user_registrations_df b) (user_registrations_writer b)) of
        Inl e \<Rightarrow> (Inl e, s)
      | Inr stream_writer \<Rightarrow> start_user_registrations b once processing_time stream_writer s)"

definition gym_logins_schema :: string where
  "gym_logins_schema = ''mac_address string, gym bigint, login double, logout double''"

definition gym_logins_df :: "bronze \<Rightarrow> error + data_frame" where
  "gym_logins_df b =
     bind_result (Inr (reader_schema gym_logins_schema (reader_format ''cloudFiles'' readStream))) (\<lambda>r.
     bind_result (reader_option [PStr ''maxFileTrigger'', PInt 1] r) (\<lambda>r.
     bind_result (reader_option [PStr ''cloudFiles.format'', PStr ''csv''] r) (\<lambda>r.
     bind_result (reader_option [PStr ''header'', PStr ''True''] r) (\<lambda>r.
       Inr (withColumn ''source_file'' ''input_file_name''
             (withColumn ''load_time'' ''current_timestamp''
               (load (landing_zone b @ ''/gym_logins_bz'') r)))))))"

definition gym_logins_writer :: "bronze \<Rightarrow> data_frame \<Rightarrow> error + stream_writer" where
  "gym_logins_writer b df_stream =
     bind_result (Inr (writer_format ''delta'' (writeStream df_stream))) (\<lambda>w.
     bind_result (writer_option [PStr ''checkpointLocation'',
                                 PStr (checkpoint_base b @ ''/gym_logins_bz'')] w) (\<lambda>w.
       Inr (queryName ''gym_logins_bz_ingestion_stream'' (outputMode ''append'' w))))"

definition start_gym_logins ::
  "bronze \<Rightarrow> pyval \<Rightarrow> pyval \<Rightarrow> stream_writer \<Rightarrow> spark_session
     \<Rightarrow> (error + streaming_query) \<times> spark_session"
where
  "start_gym_logins b once processing_time stream_writer s =
     (let s = setLocalProperty ''bronze_p2'' s in
      if eq_True once
      then toTable (table_path b ''gym_logins_bz'') (with_trigger AvailableNow stream_writer) s
      else toTable (table_path b ''gym_logins_bz'')
             (with_trigger (ProcessingTime processing_time) stream_writer) s)"

definition consume_gym_logins ::
  "bronze \<Rightarrow> pyval \<Rightarrow> pyval \<Rightarrow> spark_session \<Rightarrow> (error + streaming_query) \<times> spark_session"
where
  "consume_gym_logins b once processing_time s =
     (case bind_result (import_from pyspark_sql_functions ''F'') (\<lambda>F.
             bind_result (gym_logins_df b) (gym_logins_writer b)) of
        Inl e \<Rightarrow> (Inl e, s)
      | Inr stream_writer \<Rightarrow> start_gym_logins b once processing_time stream_writer s)"

definition kafka_multiplex_schema :: string where
  "kafka_multiplex_schema =
     ''key string, value string, topic string, partition bigint, offset bigint, timestamp bigint''"

text \<open>
  After the import, \<open>df_date_lookup\<close> is read first; reading a table that does not exist
  raises. The
  parameter \<open>topic\<close> of \<open>consume_kafka_multiplex\<close> is not used by its body.
\<close>

definition read_table :: "spark_session \<Rightarrow> string \<Rightarrow> error + date_lookup_row list" where
  "read_table s name =
     (case static_tables s name of None \<Rightarrow> Inl (AnalysisException name) | Some rows \<Rightarrow> Inr rows)"

definition kafka_multiplex_df :: "bronze \<Rightarrow> spark_session \<Rightarrow> error + data_frame" where
  "kafka_multiplex_df b s =
     bind_result (read_table s (table_path b ''date_lookup'')) (\<lambda>df_date_lookup.
     bind_result (Inr (reader_schema kafka_multiplex_schema (reader_format ''cloudFiles'' readStream))) (\<lambda>r.
     bind_result (reader_option [PStr ''cloudFiles.format'', PStr ''json''] r) (\<lambda>r.
     bind_result (reader_option [PStr ''maxFileTrigger'', PInt 1] r) (\<lambda>r.
       Inr (join (table_path b ''date_lookup'') [''date'', ''week_part''] ''left''
             (withColumn ''source_file'' ''input_file_name''
               (withColumn ''load_time'' ''current_timestamp''
                 (load (landing_zone b @ ''/kafka_multiplex_bz'') r))))))))"

definition kafka_multiplex_writer :: "bronze \<Rightarrow> data_frame \<Rightarrow> error + stream_writer" where
  "kafka_multiplex_writer b df_stream =
     bind_result (Inr (writer_format ''delta'' (writeStream df_stream))) (\<lambda>w.
     bind_result (writer_option [PStr ''checkpointLocation'',
                                 PStr (checkpoint_base b @ ''/kafka_multiplex_bz'')] w) (\<lambda>w.
       Inr (queryName ''kafka_multiplex_bz_ingestion_stream'' (outputMode ''append'' w))))"

definition start_kafka_multiplex ::
  "bronze \<Rightarrow> pyval \<Rightarrow> pyval \<Rightarrow> stream_writer \<Rightarrow> spark_session
     \<Rightarrow> (error + streaming_query) \<times> spark_session"
where
  "start_kafka_multiplex b once processing_time stream_writer s =
     (let s = setLocalProperty ''bronze_p1'' s in
      if eq_True once
      then toTable (table_path b ''kafka_multiplex_bz'') (with_trigger AvailableNow stream_writer) s
      else toTable (table_path b ''kafka_multiplex_bz'')
             (with_trigger (ProcessingTime processing_time) stream_writer) s)"

definition consume_kafka_multiplex ::
  "bronze \<Rightarrow> pyval \<Rightarrow> pyval \<Rightarrow> pyval \<Rightarrow> spark_session
     \<Rightarrow> (error + streaming_query) \<times> spark_session"
where
  "consume_kafka_multiplex b topic once processing_time s =
     (case bind_result (import_from pyspark_sql_functions ''F'') (\<lambda>F.
             bind_result (kafka_multiplex_df b s) (kafka_multiplex_writer b)) of
        Inl e \<Rightarrow> (Inl e, s)
      | Inr stream_writer \<Rightarrow> start_kafka_multiplex b once processing_time stream_writer s)"

subsection \<open>Starting the queries: \<open>consume\<close>\<close>

text \<open>
  A call \<open>self.name(args)\<close> looks \<open>name\<close> up on the object and binds the positional
  arguments to the parameters of the method in order, the defaults filling the rest.
  \<open>other_attributes\<close> are the names of a \<open>Bronze\<close> object that are not one of the three
  methods above.
\<close>

definition other_attributes :: "string list" where
  "other_attributes =
     [''__init__'', ''consume'', ''assert_count'', ''validate'',
      ''Conf'', ''catalog'', ''landing_zone'', ''checkpoint_base'', ''db_name'']"

definition call_method ::
  "bronze \<Rightarrow> string \<Rightarrow> pyval list \<Rightarrow> spark_session \<Rightarrow> (error + streaming_query) \<times> spark_session"
where
  "call_method b name args s =
     (if name = ''consume_user_registrations'' then
        (case args of
           [] \<Rightarrow> consume_user_registrations b (PBool True) (PStr ''5 seconds'') s
         | [once] \<Rightarrow> consume_user_registrations b once (PStr ''5 seconds'') s
         | [once, processing_time] \<Rightarrow> consume_user_registrations b once processing_time s
         | _ \<Rightarrow> (Inl (TypeError ''consume_user_registrations() takes at most 2 arguments''), s))
      else if name = ''consume_gym_logins'' then
        (case args of
           [] \<Rightarrow> consume_gym_logins b (PBool True) (PStr ''5 seconds'') s
         | [once] \<Rightarrow> consume_gym_logins b once (PStr ''5 seconds'') s
         | [once, processing_time] \<Rightarrow> consume_gym_logins b once processing_time s
         | _ \<Rightarrow> (Inl (TypeError ''consume_gym_logins() takes at most 2 arguments''), s))
      else if name = ''consume_kafka_multiplex'' then
        (case args of
           [] \<Rightarrow> (Inl (TypeError ''consume_kafka_multiplex() missing argument topic''), s)
         | [topic] \<Rightarrow> consume_kafka_multiplex b topic (PBool True) (PStr ''5 seconds'') s
         | [topic, once] \<Rightarrow> consume_kafka_multiplex b topic once (PStr ''5 seconds'') s
         | [topic, once, processing_time] \<Rightarrow> consume_kafka_multiplex b topic once processing_time s
         | _ \<Rightarrow> (Inl (TypeError ''consume_kafka_multiplex() takes at most 3 arguments''), s))
      else if name \<in> set other_attributes then
        (Inl (TypeError (name @ '' does not start a query'')), s)
      else (Inl (AttributeError name), s))"

text \<open>
  \<open>awaitTermination\<close> returns when the query has stopped. A query started with
  \<open>availableNow\<close> stops by itself once the backlog is written; one started with a
  processing time runs until something outside stops it, and the wait does not end.
\<close>

definition stops_by_itself :: "streaming_query \<Rightarrow> bool" where
  "stops_by_itself q = (wr_trigger (q_writer q) = Some AvailableNow)"

text \<open>
  \<open>consume\<close>; the result is \<open>None\<close> when the call does not return. \<open>start\<close> and \<open>finish\<close>
  are the two readings of the clock.
\<close>

definition consume ::
  "bronze \<Rightarrow> pyval \<Rightarrow> pyval \<Rightarrow> int \<Rightarrow> int \<Rightarrow> spark_session \<Rightarrow> string list
     \<Rightarrow> (error + unit) option \<times> spark_session \<times> string list"
where
  "consume b once processing_time start finish s out =
     (let out = print_line (newline @ ''Starting bronze layer consumption ...'') out in
      case call_method b ''consume_user_registration'' [once, processing_time] s of
        (Inl e, s) \<Rightarrow> (Some (Inl e), s, out)
      | (Inr q1, s) \<Rightarrow>
      case call_method b ''consume_gym_logins'' [once, processing_time] s of
        (Inl e, s) \<Rightarrow> (Some (Inl e), s, out)
      | (Inr q2, s) \<Rightarrow>
      case call_method b ''consume_kafka_multiplex'' [once, processing_time] s of
        (Inl e, s) \<Rightarrow> (Some (Inl e), s, out)
      | (Inr q3, s) \<Rightarrow>
      if truthy once \<and> \<not> list_all stops_by_itself (active s) then (None, s, out)
      else (Some (Inr ()),
            (if truthy once then s\<lparr> active := [] \<rparr> else s),
            print_line (''Completed bronze layer consumtion '' @ str (finish - start)
                          @ '' seconds'') out))"

subsection \<open>The battery of \<open>validate\<close> as a list, and example states\<close>

text \<open>
  The five expectations of \<open>validate\<close> in the order of its five statements, each a table,
  an expected count and a filter, and the run of such a list that stops at the first
  expectation that raises. \<open>validate_runs_battery\<close> below shows that \<open>validate\<close> is this run.
\<close>

definition expectations :: "int \<Rightarrow> (string \<times> int \<times> string) list" where
  "expectations sets =
     [(''registered_users_bz'', if sets = 1 then 5 else 10, ''true''),
      (''gym_logins_bz'', if sets = 1 then 8 else 16, ''true''),
      (''kafka_multiplex_bz'', if sets = 1 then 7 else 13, topic_is ''user_info''),
      (''kafka_multiplex_bz'', if sets = 1 then 16 else 32, topic_is ''workout''),
      (''kafka_multiplex_bz'', sets * 253801, topic_is ''bpm'')]"

fun run_battery ::
  "bronze \<Rightarrow> 'r lakehouse \<Rightarrow> (string \<times> int \<times> string) list \<Rightarrow> string list
     \<Rightarrow> (error + unit) \<times> string list"
where
  "run_battery b lh [] out = (Inr (), out)"
| "run_battery b lh ((t, e, f) # xs) out =
     (case assert_count b lh t e f out of
        (Inl err, out') \<Rightarrow> (Inl err, out')
      | (Inr u, out') \<Rightarrow> run_battery b lh xs out')"

text \<open>What an expectation that holds writes to the output.\<close>

definition passed_log :: "string \<times> int \<times> string \<Rightarrow> string list" where
  "passed_log x = (case x of (t, e, f) \<Rightarrow>
     [''Validating record counts in '' @ t @ ''...'', success_message e e f @ newline])"

text \<open>
  A development environment, and committed tables with given numbers of rows: a row is
  its topic (or a tag, in the two tables that have no topic), and a filter text holds of
  a row when it is \<open>true\<close> or names the topic of the row. \<open>generated_sets k\<close> holds \<open>k\<close>
  times the rows of one generated data set.
\<close>

definition dev_bronze :: bronze where
  "dev_bronze =
     Bronze \<lparr> base_dir_data = ''/data'', base_dir_checkpoint = ''/chk'', db_name = ''gym'' \<rparr> ''dev''"

definition loaded :: "nat \<Rightarrow> nat \<Rightarrow> nat \<Rightarrow> nat \<Rightarrow> nat \<Rightarrow> string lakehouse" where
  "loaded users logins infos workouts bpms =
     \<lparr> tables =
         [''dev.gym.registered_users_bz'' \<mapsto> replicate users ''registration'',
          ''dev.gym.gym_logins_bz'' \<mapsto> replicate logins ''login'',
          ''dev.gym.kafka_multiplex_bz'' \<mapsto>
             replicate infos ''user_info'' @ replicate workouts ''workout''
               @ replicate bpms ''bpm''],
       sql_where = (\<lambda>f r. f = ''true'' \<or> f = topic_is r) \<rparr>"

definition generated_sets :: "nat \<Rightarrow> string lakehouse" where
  "generated_sets k = loaded (5 * k) (8 * k) (7 * k) (16 * k) (253801 * k)"

section \<open>The validator\<close>

subsection \<open>One assertion\<close>

lemma assert_count_pass:
  "read_count lh (table_path b t) f = Inr n \<Longrightarrow> int n = e \<Longrightarrow>
   assert_count b lh t e f out =
     (Inr (), out @ [''Validating record counts in '' @ t @ ''...'', success_message e e f @ newline])"
  by (simp add: assert_count_def print_end_def print_line_def)

lemma assert_count_mismatch:
  "read_count lh (table_path b t) f = Inr n \<Longrightarrow> int n \<noteq> e \<Longrightarrow>
   assert_count b lh t e f out =
     (Inl (AssertionError (mismatch_message e (int n) t f)),
      out @ [''Validating record counts in '' @ t @ ''...''])"
  by (simp add: assert_count_def print_end_def print_line_def)

lemma assert_count_missing:
  "read_count lh (table_path b t) f = Inl err \<Longrightarrow>
   assert_count b lh t e f out = (Inl err, out @ [''Validating record counts in '' @ t @ ''...''])"
  by (simp add: assert_count_def print_end_def print_line_def)

lemma fmt_comma_examples:
  "fmt_comma 253801 = ''253,801''"
  "fmt_comma 10 = ''10''"
  "fmt_comma (- 1234567) = ''-1,234,567''"
  "fmt_comma 1000 = ''1,000''"
  by (simp_all add: fmt_comma_def grouped.simps dec.simps dec3_def digit_def)

lemma length_filter_replicate:
  "length (filter P (replicate n x)) = (if P x then n else 0)"
  by (induction n) auto

lemma read_count_loaded:
  "read_count (loaded u l i w p) (table_path dev_bronze ''registered_users_bz'') ''true'' = Inr u"
  "read_count (loaded u l i w p) (table_path dev_bronze ''gym_logins_bz'') ''true'' = Inr l"
  "read_count (loaded u l i w p) (table_path dev_bronze ''kafka_multiplex_bz'') (topic_is ''user_info'') = Inr i"
  "read_count (loaded u l i w p) (table_path dev_bronze ''kafka_multiplex_bz'') (topic_is ''workout'') = Inr w"
  "read_count (loaded u l i w p) (table_path dev_bronze ''kafka_multiplex_bz'') (topic_is ''bpm'') = Inr p"
  by (simp_all add: read_count_def loaded_def table_path_def dev_bronze_def Bronze_def
        length_filter_replicate topic_is_def)

lemma loaded_tables:
  "tables (loaded u l i w p) (table_path dev_bronze ''registered_users_bz'')
     = Some (replicate u ''registration'')"
  "tables (loaded u l i w p) (table_path dev_bronze ''gym_logins_bz'') = Some (replicate l ''login'')"
  "tables (loaded u l i w p) (table_path dev_bronze ''kafka_multiplex_bz'')
     = Some (replicate i ''user_info'' @ replicate w ''workout'' @ replicate p ''bpm'')"
  "sql_where (loaded u l i w p) f r = (f = ''true'' \<or> f = topic_is r)"
  by (simp_all add: loaded_def table_path_def dev_bronze_def Bronze_def)

text \<open>
  Claim C3. For every table name, expected count and filter, \<open>assert_count\<close> raises an
  \<open>AssertionError\<close> exactly when the table can be read and the number of its committed
  rows that satisfy the filter differs from the expected count; the message of the error
  is \<open>Expected <expected> records, found <actual> in <table> where <filter>\<close>, which names
  the expected count, the actual count, the table and the filter; when the two counts are
  equal the call returns.
\<close>

theorem assert_count_raises_iff_mismatch:
  "((\<exists>m. fst (assert_count b lh t e f out) = Inl (AssertionError m))
      = (\<exists>n. read_count lh (table_path b t) f = Inr n \<and> int n \<noteq> e))
   \<and> (read_count lh (table_path b t) f = Inr n \<and> int n \<noteq> e \<longrightarrow>
        fst (assert_count b lh t e f out) =
          Inl (AssertionError (''Expected '' @ fmt_comma e @ '' records, found '' @ fmt_comma (int n)
                                 @ '' in '' @ t @ '' where '' @ f)))
   \<and> (read_count lh (table_path b t) f = Inr n \<and> int n = e \<longrightarrow>
        fst (assert_count b lh t e f out) = Inr ())"
proof -
  have no_assertion: "read_count lh (table_path b t) f \<noteq> Inl (AssertionError m)" for m
    by (simp add: read_count_def split: option.splits)
  show ?thesis
    using no_assertion
    by (auto simp: assert_count_def mismatch_message_def Let_def split: sum.splits)
qed

theorem assert_count_raises_iff_mismatch_witness:
  "fst (assert_count dev_bronze (loaded 2 0 0 0 0) ''registered_users_bz'' 1234 ''true'' [])
     = Inl (AssertionError ''Expected 1,234 records, found 2 in registered_users_bz where true'')
   \<and> fst (assert_count dev_bronze (loaded 2 0 0 0 0) ''registered_users_bz'' 2 ''true'' []) = Inr ()"
  using assert_count_raises_iff_mismatch
          [of dev_bronze "loaded 2 0 0 0 0" "''registered_users_bz''" 1234 "''true''" "[]" 2]
        assert_count_raises_iff_mismatch
          [of dev_bronze "loaded 2 0 0 0 0" "''registered_users_bz''" 2 "''true''" "[]" 2]
  by (simp add: read_count_loaded fmt_comma_def grouped.simps dec.simps dec3_def digit_def)

subsection \<open>The battery\<close>

lemma validate_runs_battery:
  "validate b lh start finish sets out =
     (case run_battery b lh (expectations sets)
             (out @ [newline @ ''Validating bronz layer records...'' @ newline]) of
        (Inl err, out') \<Rightarrow> (Inl err, out')
      | (Inr u, out') \<Rightarrow>
          (Inr (), out' @ [''Bronze layer validation completed in '' @ str (finish - start)
                             @ '' seconds'' @ newline]))"
  by (simp add: validate_def expectations_def and_then_def print_line_def print_end_def
           split: prod.splits sum.splits)

lemma run_battery_first_mismatch:
  assumes "\<forall>(t', e', f') \<in> set pre. \<exists>n'. read_count lh (table_path b t') f' = Inr n' \<and> int n' = e'"
      and "read_count lh (table_path b t) f = Inr n" and "int n \<noteq> e"
  shows "run_battery b lh (pre @ (t, e, f) # post) out =
           (Inl (AssertionError (mismatch_message e (int n) t f)),
            out @ concat (map passed_log pre) @ [''Validating record counts in '' @ t @ ''...''])"
  using assms
proof (induction pre arbitrary: out)
  case Nil
  then show ?case by (simp add: assert_count_mismatch)
next
  case (Cons x pre)
  obtain t' e' f' where x: "x = (t', e', f')" by (cases x) auto
  from Cons.prems(1) x obtain n'
    where n': "read_count lh (table_path b t') f' = Inr n'" "int n' = e'"
    by auto
  have rest: "\<forall>(t', e', f') \<in> set pre. \<exists>n'. read_count lh (table_path b t') f' = Inr n' \<and> int n' = e'"
    using Cons.prems(1) by simp
  show ?case
    using Cons.IH [OF rest Cons.prems(2) Cons.prems(3)]
    by (simp add: x assert_count_pass [OF n'] passed_log_def)
qed

lemma run_battery_all_pass:
  assumes "\<forall>(t', e', f') \<in> set xs. \<exists>n'. read_count lh (table_path b t') f' = Inr n' \<and> int n' = e'"
  shows "run_battery b lh xs out = (Inr (), out @ concat (map passed_log xs))"
  using assms
proof (induction xs arbitrary: out)
  case Nil
  then show ?case by simp
next
  case (Cons x xs)
  obtain t' e' f' where x: "x = (t', e', f')" by (cases x) auto
  from Cons.prems x obtain n'
    where n': "read_count lh (table_path b t') f' = Inr n'" "int n' = e'"
    by auto
  have rest: "\<forall>(t', e', f') \<in> set xs. \<exists>n'. read_count lh (table_path b t') f' = Inr n' \<and> int n' = e'"
    using Cons.prems by simp
  show ?case
    using Cons.IH [OF rest] by (simp add: x assert_count_pass [OF n'] passed_log_def)
qed

text \<open>
  Claim C1. In a committed state with exactly 5 rows in \<open>registered_users_bz\<close>, 8 rows in
  \<open>gym_logins_bz\<close>, and rows in \<open>kafka_multiplex_bz\<close> of which 7 satisfy
  \<open>topic='user_info'\<close>, 16 satisfy \<open>topic='workout'\<close> and 253801 satisfy \<open>topic='bpm'\<close>
  (the filter \<open>true\<close> holding of every row), \<open>validate(1)\<close> returns without raising, and
  \<open>validate(2)\<close> on the same state raises the count mismatch of its first expectation,
  whose expected count 10 is twice the actual count 5.
\<close>

theorem validate_single_set:
  assumes "\<forall>r. sql_where lh ''true'' r"
      and "tables lh (table_path b ''registered_users_bz'') = Some users" and "length users = 5"
      and "tables lh (table_path b ''gym_logins_bz'') = Some logins" and "length logins = 8"
      and "tables lh (table_path b ''kafka_multiplex_bz'') = Some events"
      and "length (filter (sql_where lh (topic_is ''user_info'')) events) = 7"
      and "length (filter (sql_where lh (topic_is ''workout'')) events) = 16"
      and "length (filter (sql_where lh (topic_is ''bpm'')) events) = 253801"
  shows "fst (validate b lh start finish 1 out) = Inr ()
       \<and> fst (validate b lh start finish 2 out)
           = Inl (AssertionError (mismatch_message (2 * 5) 5 ''registered_users_bz'' ''true''))
       \<and> mismatch_message (2 * 5) 5 ''registered_users_bz'' ''true''
           = ''Expected 10 records, found 5 in registered_users_bz where true''"
proof -
  have u: "read_count lh (table_path b ''registered_users_bz'') ''true'' = Inr 5"
    using assms(1,2,3) by (simp add: read_count_def)
  have l: "read_count lh (table_path b ''gym_logins_bz'') ''true'' = Inr 8"
    using assms(1,4,5) by (simp add: read_count_def)
  have i: "read_count lh (table_path b ''kafka_multiplex_bz'') (topic_is ''user_info'') = Inr 7"
    using assms(6,7) by (simp add: read_count_def)
  have w: "read_count lh (table_path b ''kafka_multiplex_bz'') (topic_is ''workout'') = Inr 16"
    using assms(6,8) by (simp add: read_count_def)
  have p: "read_count lh (table_path b ''kafka_multiplex_bz'') (topic_is ''bpm'') = Inr 253801"
    using assms(6,9) by (simp add: read_count_def)
  have one: "fst (validate b lh start finish 1 out) = Inr ()"
    by (simp add: validate_def and_then_def
          assert_count_pass [OF u] assert_count_pass [OF l] assert_count_pass [OF i]
          assert_count_pass [OF w] assert_count_pass [OF p])
  have two: "fst (validate b lh start finish 2 out)
           = Inl (AssertionError (mismatch_message (2 * 5) 5 ''registered_users_bz'' ''true''))"
    using assert_count_mismatch [OF u, of 10]
    by (simp add: validate_def and_then_def)
  have msg: "mismatch_message (2 * 5) 5 ''registered_users_bz'' ''true''
           = ''Expected 10 records, found 5 in registered_users_bz where true''"
    by (simp add: mismatch_message_def fmt_comma_def grouped.simps dec.simps digit_def)
  from one two msg show ?thesis by simp
qed

theorem validate_single_set_witness:
  "fst (validate dev_bronze (generated_sets 1) 0 9 1 []) = Inr ()
   \<and> fst (validate dev_bronze (generated_sets 1) 0 9 2 [])
       = Inl (AssertionError ''Expected 10 records, found 5 in registered_users_bz where true'')"
  using validate_single_set
          [of "generated_sets 1" dev_bronze "replicate 5 ''registration''" "replicate 8 ''login''"
              "replicate 7 ''user_info'' @ replicate 16 ''workout'' @ replicate 253801 ''bpm''"
              0 9 "[]"]
  by (simp add: generated_sets_def loaded_tables length_filter_replicate topic_is_def)

text \<open>
  Claim C4, as stated, has the expected counts scaled by the multiplier. They are not: with
  the rows of three generated sets committed, \<open>validate(3)\<close> expects 10 rows in
  \<open>registered_users_bz\<close>, not 15, and with the rows of two sets \<open>validate(2)\<close> expects 13
  rows of topic \<open>user_info\<close>, not 14.
\<close>

theorem validate_not_scaled_counterexample:
  "fst (validate dev_bronze (generated_sets 3) 0 9 3 [])
     = Inl (AssertionError ''Expected 10 records, found 15 in registered_users_bz where true'')
   \<and> fst (validate dev_bronze (generated_sets 2) 0 9 2 [])
     = Inl (AssertionError (''Expected 13 records, found 14 in kafka_multiplex_bz where ''
                              @ topic_is ''user_info''))"
proof -
  have three: "fst (validate dev_bronze (generated_sets 3) 0 9 3 [])
     = Inl (AssertionError ''Expected 10 records, found 15 in registered_users_bz where true'')"
    by (simp add: validate_def and_then_def assert_count_def generated_sets_def
          read_count_loaded mismatch_message_def fmt_comma_def grouped.simps dec.simps digit_def)
  have two: "fst (validate dev_bronze (generated_sets 2) 0 9 2 [])
     = Inl (AssertionError (''Expected 13 records, found 14 in kafka_multiplex_bz where ''
                              @ topic_is ''user_info''))"
    by (simp add: validate_def and_then_def assert_count_def generated_sets_def
          read_count_loaded mismatch_message_def fmt_comma_def grouped.simps dec.simps digit_def)
  from three two show ?thesis by simp
qed

text \<open>
  Claim C4, amended. For every multiplier, \<open>validate\<close> runs the five expectations of
  \<open>expectations\<close> in their order (expected counts 5, 8, 7, 16 for the multiplier 1 and 10,
  16, 13, 32 for any other, and the multiplier times 253801 for topic \<open>bpm\<close>) and raises at
  the first one whose actual count differs from its expected count: the error is the
  mismatch of that expectation, and the output holds the two lines of each expectation
  before it and the opening text of the failing one, and nothing of the later ones.
\<close>

theorem validate_stops_at_first_mismatch:
  assumes "expectations sets = pre @ (t, e, f) # post"
      and "\<forall>(t', e', f') \<in> set pre. \<exists>n'. read_count lh (table_path b t') f' = Inr n' \<and> int n' = e'"
      and "read_count lh (table_path b t) f = Inr n" and "int n \<noteq> e"
  shows "validate b lh start finish sets out =
           (Inl (AssertionError (mismatch_message e (int n) t f)),
            out @ [newline @ ''Validating bronz layer records...'' @ newline]
                @ concat (map passed_log pre)
                @ [''Validating record counts in '' @ t @ ''...''])"
  by (simp add: validate_runs_battery assms(1) run_battery_first_mismatch [OF assms(2,3,4)])

theorem validate_stops_at_first_mismatch_witness:
  "validate dev_bronze (loaded 10 16 14 32 761403) 0 9 3 [] =
     (Inl (AssertionError (''Expected 13 records, found 14 in kafka_multiplex_bz where ''
                             @ topic_is ''user_info'')),
      [newline @ ''Validating bronz layer records...'' @ newline,
       ''Validating record counts in registered_users_bz...'',
       ''Found 10 / Expected 10 records where true: Success'' @ newline,
       ''Validating record counts in gym_logins_bz...'',
       ''Found 16 / Expected 16 records where true: Success'' @ newline,
       ''Validating record counts in kafka_multiplex_bz...''])"
  using validate_stops_at_first_mismatch
          [of 3 "[(''registered_users_bz'', 10, ''true''), (''gym_logins_bz'', 16, ''true'')]"
              "''kafka_multiplex_bz''" 13 "topic_is ''user_info''"
              "[(''kafka_multiplex_bz'', 32, topic_is ''workout''),
                (''kafka_multiplex_bz'', 3 * 253801, topic_is ''bpm'')]"
              "loaded 10 16 14 32 761403" dev_bronze 14 0 9 "[]"]
  by (simp add: expectations_def read_count_loaded passed_log_def mismatch_message_def
        success_message_def fmt_comma_def grouped.simps dec.simps digit_def)

text \<open>
  Claim C10. For every value of \<open>sets\<close> other than 1, \<open>validate\<close> expects 10 rows in
  \<open>registered_users_bz\<close>, 16 in \<open>gym_logins_bz\<close>, 13 rows of topic \<open>user_info\<close> and 32 of
  topic \<open>workout\<close> whatever \<open>sets\<close> is, and \<open>sets\<close> times 253801 rows of topic \<open>bpm\<close>: it
  returns without raising exactly when the five counts of the committed state are these.
\<close>

theorem validate_other_sets:
  assumes "sets \<noteq> 1"
      and "read_count lh (table_path b ''registered_users_bz'') ''true'' = Inr n1"
      and "read_count lh (table_path b ''gym_logins_bz'') ''true'' = Inr n2"
      and "read_count lh (table_path b ''kafka_multiplex_bz'') (topic_is ''user_info'') = Inr n3"
      and "read_count lh (table_path b ''kafka_multiplex_bz'') (topic_is ''workout'') = Inr n4"
      and "read_count lh (table_path b ''kafka_multiplex_bz'') (topic_is ''bpm'') = Inr n5"
  shows "(fst (validate b lh start finish sets out) = Inr ())
           = (n1 = 10 \<and> n2 = 16 \<and> n3 = 13 \<and> n4 = 32 \<and> int n5 = sets * 253801)"
  using assms
  by (auto simp: validate_def and_then_def assert_count_def Let_def)

theorem validate_other_sets_witness:
  "fst (validate dev_bronze (loaded 10 16 13 32 761403) 0 9 3 []) = Inr ()
   \<and> fst (validate dev_bronze (generated_sets 3) 0 9 3 []) \<noteq> Inr ()"
  using validate_other_sets
          [of 3 "loaded 10 16 13 32 761403" dev_bronze 10 16 13 32 761403 0 9 "[]"]
        validate_other_sets
          [of 3 "generated_sets 3" dev_bronze 15 24 21 48 761403 0 9 "[]"]
  by (simp add: read_count_loaded generated_sets_def)

section \<open>The ingestion queries\<close>

subsection \<open>The stages of the three methods\<close>

text \<open>
  What the stages after the import build, each taken by itself: the frames of the two
  methods that give the reader its schema, and the trigger that the last stage selects.
\<close>

lemma gym_logins_df_columns:
  "\<exists>df. gym_logins_df b = Inr df
      \<and> rd_schema (df_reader df) = Some gym_logins_schema
      \<and> df_columns df
          = [''mac_address'', ''gym'', ''login'', ''logout'', ''load_time'', ''source_file'']"
  by (simp add: gym_logins_df_def bind_result_def reader_option_def call_option_def
        reader_schema_def reader_format_def readStream_def load_def withColumn_def
        schema_columns_def gym_logins_schema_def)

lemma kafka_multiplex_df_columns:
  "static_tables s (table_path b ''date_lookup'') = Some rows \<Longrightarrow>
   \<exists>df. kafka_multiplex_df b s = Inr df
      \<and> rd_schema (df_reader df) = Some kafka_multiplex_schema
      \<and> df_joined df = Some (table_path b ''date_lookup'', ''left'')
      \<and> df_columns df
          = [''key'', ''value'', ''topic'', ''partition'', ''offset'', ''timestamp'',
             ''load_time'', ''source_file'', ''date'', ''week_part'']"
  by (simp add: kafka_multiplex_df_def bind_result_def reader_option_def call_option_def
        reader_schema_def reader_format_def readStream_def load_def withColumn_def join_def
        schema_columns_def kafka_multiplex_schema_def read_table_def)

lemma start_user_registrations_trigger:
  "\<exists>q s'. start_user_registrations b once processing_time w s = (Inr q, s')
      \<and> wr_trigger (q_writer q)
          = Some (if eq_True once then AvailableNow else ProcessingTime processing_time)"
  by (simp add: start_user_registrations_def toTable_def with_trigger_def Let_def)

lemma start_gym_logins_trigger:
  "\<exists>q s'. start_gym_logins b once processing_time w s = (Inr q, s')
      \<and> wr_trigger (q_writer q)
          = Some (if eq_True once then AvailableNow else ProcessingTime processing_time)"
  by (simp add: start_gym_logins_def toTable_def with_trigger_def Let_def)

lemma start_kafka_multiplex_trigger:
  "\<exists>q s'. start_kafka_multiplex b once processing_time w s = (Inr q, s')
      \<and> wr_trigger (q_writer q)
          = Some (if eq_True once then AvailableNow else ProcessingTime processing_time)"
  by (simp add: start_kafka_multiplex_def toTable_def with_trigger_def Let_def)

text \<open>The import of \<open>F\<close> raises, and with it \<open>consume_gym_logins\<close>.\<close>

lemma import_F_raises: "import_from pyspark_sql_functions ''F'' = Inl (ImportError ''F'')"
  by (simp add: import_from_def pyspark_sql_functions_def)

lemma consume_gym_logins_raises:
  "consume_gym_logins b once processing_time s = (Inl (ImportError ''F''), s)"
  by (simp add: consume_gym_logins_def import_F_raises bind_result_def)

text \<open>
  \<open>consume\<close> calls \<open>consume_kafka_multiplex(once, processing_time)\<close>: the two arguments
  go to \<open>topic\<close> and \<open>once\<close>, so that \<open>once\<close> is the interval text and \<open>processing_time\<close>
  its default; \<open>once == True\<close> is then false, and the last stage would select a processing
  time trigger at the default interval.
\<close>

lemma call_kafka_multiplex_binds_once_to_topic:
  "call_method b ''consume_kafka_multiplex'' [once, processing_time] s
     = consume_kafka_multiplex b once processing_time (PStr ''5 seconds'') s"
  by (simp add: call_method_def)

lemma start_kafka_multiplex_interval_as_once:
  "\<exists>q s'. start_kafka_multiplex b (PStr interval) (PStr ''5 seconds'') w s = (Inr q, s')
      \<and> wr_trigger (q_writer q) = Some (ProcessingTime (PStr ''5 seconds''))"
  by (simp add: start_kafka_multiplex_def toTable_def with_trigger_def Let_def)

subsection \<open>Checkpoints\<close>


subsection \<open>The reader of the user registrations\<close>

text \<open>
  Claim C7 says that the rows of each of the three pipelines carry the fields of the
  source schema, \<open>load_time\<close> and \<open>source_file\<close>. In \<open>consume_user_registrations\<close> the
  schema text is passed to \<open>option\<close> as its only argument and not to \<open>schema\<close>, as the two
  other methods do: the call raises, \<open>df_stream\<close> is never built, and the schema is never
  given to the reader.
\<close>

theorem user_registrations_df_raises:
  "user_registrations_df b = Inl (TypeError ''option() takes a key and a value'')"
  by (simp add: user_registrations_df_def bind_result_def reader_option_def call_option_def)

text \<open>
  Claim C8 says that every source pipeline is written with \<open>availableNow\<close> when \<open>once\<close> is
  true and at the interval \<open>processing_time\<close> otherwise. \<open>consume_user_registrations\<close>
  raises at its first statement, the import of \<open>F\<close>, whatever \<open>once\<close> is: it starts no
  query and leaves the session as it was. The statements after the import raise as well,
  at the \<open>option\<close> call, before the writer is built.
\<close>

theorem consume_user_registrations_raises:
  "consume_user_registrations b once processing_time s = (Inl (ImportError ''F''), s)
   \<and> bind_result (user_registrations_df b) (user_registrations_writer b)
       = Inl (TypeError ''option() takes a key and a value'')"
  by (simp add: consume_user_registrations_def import_F_raises user_registrations_df_def
        bind_result_def reader_option_def call_option_def)

subsection \<open>The enrichment of the multiplexed source\<close>

text \<open>
  Claim C6 says that the multiplexed source is enriched by a left outer join with
  \<open>date_lookup\<close> on the day of the timestamp, every record being kept. The method that
  writes the join (lines 101 to 103, with the join type \<open>"left"\<close>) begins with the import
  of \<open>F\<close>, which raises: \<open>consume_kafka_multiplex\<close> raises an \<open>ImportError\<close> at its first
  statement, whether \<open>date_lookup\<close> exists or not, before the table is read and before the
  join is built; it starts no query and leaves the session as it was, so that no record
  is enriched or written.
\<close>

theorem consume_kafka_multiplex_raises:
  "consume_kafka_multiplex b topic once processing_time s = (Inl (ImportError ''F''), s)"
  by (simp add: consume_kafka_multiplex_def import_F_raises bind_result_def)

subsection \<open>Starting the three queries\<close>

text \<open>
  Claim C2 says that \<open>consume\<close> starts one pipeline for each of the three sources and, when
  \<open>once\<close> is true, returns after all of them have stopped. \<open>consume\<close> calls
  \<open>self.consume_user_registration\<close>, and the class has no attribute of that name (the
  method is \<open>consume_user_registrations\<close>): the call raises an \<open>AttributeError\<close> after the
  first line of output, in either mode, and no query is started.
\<close>

theorem consume_raises:
  "consume b once processing_time start finish s out
     = (Some (Inl (AttributeError ''consume_user_registration'')), s,
        out @ [newline @ ''Starting bronze layer consumption ...'' @ newline])"
  by (simp add: consume_def call_method_def other_attributes_def print_line_def print_end_def)

end
